theory Spec2Isabelle
  imports Main "HOL-Library.Sublist"
begin

section \<open>Data model\<close>

text \<open>
  The service worker sees a request through \<open>req.method\<close>, \<open>req.mode\<close> and the parsed
  \<open>new URL(req.url)\<close>, of which it reads \<open>origin\<close> and \<open>pathname\<close>. A cache entry is
  keyed by the URL of the request. A response is a snapshot of status, headers and body.
\<close>

record URL =
  origin :: string
  pathname :: string
  search :: string

record request =
  "method" :: string
  mode :: string
  url :: URL

record response =
  status :: nat
  headers :: "(string \<times> string) list"
  body :: string

text \<open>
  A cache is a map from request URLs to responses; the cache storage of the origin is the
  list of its named caches in creation order (\<open>caches.keys()\<close> and \<open>caches.match\<close> follow
  that order).
\<close>

type_synonym cache = "URL \<rightharpoonup> response"

type_synonym cache_storage = "(string \<times> cache) list"

text \<open>
  The state the worker acts on: the cache storage, the number of \<open>fetch\<close> calls it has made
  so far, and the two requests it makes to the host runtime (\<open>self.skipWaiting()\<close>,
  \<open>self.clients.claim()\<close>).
\<close>

record world =
  caches :: cache_storage
  calls :: nat
  skip_waiting :: bool
  claimed :: bool

text \<open>A settled promise: fulfilled with a value, or rejected.\<close>

datatype 'a settled = Fulfilled 'a | Rejected

text \<open>
  The values the strategies pass around: \<open>undefined\<close> or a \<open>Response\<close>. An operand of
  \<open>||\<close> is such a value or a promise object; a promise object is truthy whatever it
  settles to.
\<close>

datatype jsval = Undefined | Resp response

datatype operand = Plain jsval | Promise "jsval settled"

fun truthy :: "operand \<Rightarrow> bool" where
  "truthy (Plain Undefined) = False"
| "truthy (Plain (Resp r)) = True"
| "truthy (Promise p) = True"

text \<open>\<open>return v\<close> in an async function: a promise that is returned is adopted.\<close>

fun async_return :: "operand \<Rightarrow> jsval settled" where
  "async_return (Plain v) = Fulfilled v"
| "async_return (Promise p) = p"

section \<open>External interfaces: network transport and cache store\<close>

text \<open>
  The transport is opaque: the outcome of the \<open>n\<close>-th \<open>fetch\<close> call of the worker, for
  the request given, is a response or a failure. Two fetches of the same request may
  differ.
\<close>

type_synonym transport = "nat \<Rightarrow> request \<Rightarrow> response settled"

definition fetch :: "transport \<Rightarrow> request \<Rightarrow> world \<Rightarrow> response settled \<times> world" where
  "fetch net req w = (net (calls w) req, w\<lparr>calls := Suc (calls w)\<rparr>)"

text \<open>
  The store interface \<open>open\<close>, \<open>get\<close>, \<open>put\<close>, \<open>listStoreNames\<close>, \<open>deleteStore\<close>: opening
  creates the named cache when it is absent, a lookup of an absent key is \<open>undefined\<close>,
  \<open>put\<close> stores a response under the key, replacing an entry that is there, and
  \<open>caches.match\<close> asks every cache in creation order.

  \<open>put\<close> refuses a response whose status is 206 and a response with a \<open>Vary\<close> header
  one of whose comma-separated values is \<open>*\<close> (the header name compared without regard
  to case): its promise is then rejected and nothing is stored. The worker never awaits
  a \<open>put\<close> and never catches its rejection, so a refused \<open>put\<close> leaves the store as
  it was and the strategy goes on; the state a strategy returns is the one in which its
  writes have landed. The requests the listener hands to a strategy are \<open>GET\<close> requests
  of the worker's own http(s) origin, for which \<open>put\<close> has no objection to the request.
\<close>

definition ascii_lower :: "char \<Rightarrow> char" where
  "ascii_lower c =
     (case map_of (zip ''ABCDEFGHIJKLMNOPQRSTUVWXYZ'' ''abcdefghijklmnopqrstuvwxyz'') c of
        Some d \<Rightarrow> d
      | None \<Rightarrow> c)"

fun split_commas :: "string \<Rightarrow> string list" where
  "split_commas [] = [[]]"
| "split_commas (c # cs) =
     (if c = CHR '','' then [] # split_commas cs
      else (case split_commas cs of [] \<Rightarrow> [[c]] | f # fs \<Rightarrow> (c # f) # fs))"

definition http_space :: "char \<Rightarrow> bool" where
  "http_space c = (c = CHR '' '' \<or> c = CHR 0x09)"

definition trim :: "string \<Rightarrow> string" where
  "trim s = rev (dropWhile http_space (rev (dropWhile http_space s)))"

definition vary_star :: "response \<Rightarrow> bool" where
  "vary_star r =
     (\<exists>h \<in> set (headers r).
        map ascii_lower (fst h) = ''vary'' \<and> ''*'' \<in> set (map trim (split_commas (snd h))))"

definition put_accepts :: "response \<Rightarrow> bool" where
  "put_accepts r = (status r \<noteq> 206 \<and> \<not> vary_star r)"

definition caches_open :: "string \<Rightarrow> cache_storage \<Rightarrow> cache_storage" where
  "caches_open name cs = (if name \<in> set (map fst cs) then cs else cs @ [(name, Map.empty)])"

definition caches_keys :: "cache_storage \<Rightarrow> string list" where
  "caches_keys cs = map fst cs"

definition caches_delete :: "string \<Rightarrow> cache_storage \<Rightarrow> cache_storage" where
  "caches_delete name cs = filter (\<lambda>p. fst p \<noteq> name) cs"

definition of_entry :: "response option \<Rightarrow> jsval" where
  "of_entry e = (case e of None \<Rightarrow> Undefined | Some r \<Rightarrow> Resp r)"

fun caches_match :: "cache_storage \<Rightarrow> URL \<Rightarrow> jsval" where
  "caches_match [] k = Undefined"
| "caches_match (p # cs) k = (case snd p k of Some r \<Rightarrow> Resp r | None \<Rightarrow> caches_match cs k)"

definition store_get :: "cache_storage \<Rightarrow> string \<Rightarrow> URL \<Rightarrow> response option" where
  "store_get cs name k = (case map_of cs name of None \<Rightarrow> None | Some c \<Rightarrow> c k)"

definition cache_match :: "cache_storage \<Rightarrow> string \<Rightarrow> URL \<Rightarrow> jsval" where
  "cache_match cs name k = of_entry (store_get cs name k)"

definition store_write :: "string \<Rightarrow> URL \<Rightarrow> response \<Rightarrow> cache_storage \<Rightarrow> cache_storage" where
  "store_write name k r cs =
     map (\<lambda>p. if fst p = name then (fst p, (snd p)(k \<mapsto> r)) else p) cs"

definition cache_put :: "string \<Rightarrow> URL \<Rightarrow> response \<Rightarrow> cache_storage \<Rightarrow> cache_storage" where
  "cache_put name k r cs = (if put_accepts r then store_write name k r cs else cs)"

text \<open>
  \<open>event.respondWith(p)\<close>: the page receives the response \<open>p\<close> is fulfilled with; when
  \<open>p\<close> is rejected, or fulfilled with something that is not a response, the page's
  request fails with a network error.
\<close>

datatype client_result = Response response | NetworkError

fun respondWith :: "jsval settled \<Rightarrow> client_result" where
  "respondWith (Fulfilled (Resp r)) = Response r"
| "respondWith (Fulfilled Undefined) = NetworkError"
| "respondWith Rejected = NetworkError"

section \<open>Constants of the worker\<close>

definition CACHE_NAME :: string where
  "CACHE_NAME = ''awc-cache-v2''"

definition ENTRY_HTML :: string where
  "ENTRY_HTML = ''/index.html''"

definition PRECACHE_ASSETS :: "string list" where
  "PRECACHE_ASSETS =
     [''/'', ENTRY_HTML, ''/manifest.json'', ''/icons/icon-192.png'',
      ''/icons/icon-512.png'', ''/icons/apple-touch-icon-180.png'']"

text \<open>
  A path given as a string (\<open>caches.match('/')\<close>, \<open>cache.put(ENTRY_HTML, ...)\<close>, the
  entries of \<open>addAll\<close>) is resolved against the worker's own origin \<open>so\<close>; the request
  made for it is a plain \<open>GET\<close>.
\<close>

definition resolve :: "string \<Rightarrow> string \<Rightarrow> URL" where
  "resolve so p = \<lparr>origin = so, pathname = p, search = []\<rparr>"

definition request_of :: "string \<Rightarrow> string \<Rightarrow> request" where
  "request_of so p = \<lparr>method = ''GET'', mode = ''cors'', url = resolve so p\<rparr>"

section \<open>Lifecycle manager\<close>

text \<open>
  \<open>cache.addAll(paths)\<close>: one fetch per path, in manifest order. The promise is rejected,
  and nothing is stored, when any fetch fails or any response is one \<open>addAll\<close> does not
  take: a status outside 200-299, the status 206, or a \<open>Vary: *\<close> header. Otherwise every
  response is stored under its path.
\<close>

definition addAll_accepts :: "response \<Rightarrow> bool" where
  "addAll_accepts r =
     (200 \<le> status r \<and> status r \<le> 299 \<and> status r \<noteq> 206 \<and> \<not> vary_star r)"

fun addAll_admits :: "response settled \<Rightarrow> bool" where
  "addAll_admits (Fulfilled r) = addAll_accepts r"
| "addAll_admits Rejected = False"

fun fetch_all :: "transport \<Rightarrow> request list \<Rightarrow> world \<Rightarrow> response settled list \<times> world" where
  "fetch_all net [] w = ([], w)"
| "fetch_all net (r # rs) w =
     (case fetch net r w of (x, w1) \<Rightarrow>
        (case fetch_all net rs w1 of (xs, w2) \<Rightarrow> (x # xs, w2)))"

fun put_all :: "string \<Rightarrow> (URL \<times> response settled) list \<Rightarrow> cache_storage \<Rightarrow> cache_storage" where
  "put_all name [] cs = cs"
| "put_all name ((k, Fulfilled r) # kvs) cs = put_all name kvs (store_write name k r cs)"
| "put_all name ((k, Rejected) # kvs) cs = put_all name kvs cs"

definition cache_addAll ::
  "string \<Rightarrow> transport \<Rightarrow> string \<Rightarrow> string list \<Rightarrow> world \<Rightarrow> unit settled \<times> world" where
  "cache_addAll so net name paths w =
     (case fetch_all net (map (request_of so) paths) w of (xs, w1) \<Rightarrow>
        if list_all addAll_admits xs
        then (Fulfilled (),
              w1\<lparr>caches := put_all name (zip (map (resolve so) paths) xs) (caches w1)\<rparr>)
        else (Rejected, w1))"

text \<open>
  The \<open>install\<close> listener: \<open>self.skipWaiting()\<close>, then
  \<open>event.waitUntil(caches.open(CACHE_NAME).then(cache => cache.addAll(PRECACHE_ASSETS)))\<close>.
  The result is what the promise handed to \<open>waitUntil\<close> settles to: installation
  succeeds when it is fulfilled and fails when it is rejected.
\<close>

definition install :: "string \<Rightarrow> transport \<Rightarrow> world \<Rightarrow> unit settled \<times> world" where
  "install so net w =
     (let w0 = w\<lparr>skip_waiting := True\<rparr>;
          w1 = w0\<lparr>caches := caches_open CACHE_NAME (caches w0)\<rparr>
      in cache_addAll so net CACHE_NAME PRECACHE_ASSETS w1)"

text \<open>
  The \<open>activate\<close> listener: \<open>keys = await caches.keys()\<close>, then for each key
  \<open>k !== CACHE_NAME ? caches.delete(k) : null\<close>, then \<open>self.clients.claim()\<close>.
\<close>

definition activate :: "world \<Rightarrow> world" where
  "activate w =
     (let keys = caches_keys (caches w);
          cs = fold (\<lambda>k cs. if k \<noteq> CACHE_NAME then caches_delete k cs else cs) keys (caches w)
      in w\<lparr>caches := cs, claimed := True\<rparr>)"

section \<open>Request router\<close>

text \<open>
  \<open>/\.(?:a|b|...)$/.test(s)\<close>: the search tries every start position of \<open>s\<close>; at a
  position the pattern matches when what is left of \<open>s\<close> is a dot, one of the
  alternatives, and then the end of the input.
\<close>

definition matches_here :: "string list \<Rightarrow> string \<Rightarrow> bool" where
  "matches_here alts t = (t \<in> set (map (\<lambda>a. CHR ''.'' # a) alts))"

fun regex_test :: "string list \<Rightarrow> string \<Rightarrow> bool" where
  "regex_test alts [] = matches_here alts []"
| "regex_test alts (c # t) = (matches_here alts (c # t) \<or> regex_test alts t)"

datatype strategy =
  NetworkFirstNavigation | StaleWhileRevalidate | CacheFirst | NetworkWithCacheFallback

text \<open>
  The \<open>fetch\<close> listener, as the list of \<open>event.respondWith\<close> calls it makes for a request:
  none when it returns early, and each strategy call is followed by \<open>return\<close>.
\<close>

definition fetch_listener :: "string \<Rightarrow> request \<Rightarrow> strategy list" where
  "fetch_listener so req =
     (if method req \<noteq> ''GET'' then []
      else if mode req = ''navigate'' then [NetworkFirstNavigation]
      else if origin (url req) = so then
        (if regex_test [''css'', ''js''] (pathname (url req)) then [StaleWhileRevalidate]
         else if regex_test [''png'', ''jpg'', ''jpeg'', ''gif'', ''webp'', ''svg'', ''ico'']
                   (pathname (url req))
           then [CacheFirst]
         else [NetworkWithCacheFallback])
      else [NetworkWithCacheFallback])"

text \<open>The router as the specification words it: a path that ends in a dot and an extension.\<close>

definition ends_in :: "string \<Rightarrow> string \<Rightarrow> bool" where
  "ends_in ext p = suffix (CHR ''.'' # ext) p"

definition stylesheet_or_script :: "string \<Rightarrow> bool" where
  "stylesheet_or_script p = (ends_in ''css'' p \<or> ends_in ''js'' p)"

definition known_image :: "string \<Rightarrow> bool" where
  "known_image p =
     (ends_in ''png'' p \<or> ends_in ''jpg'' p \<or> ends_in ''jpeg'' p \<or> ends_in ''gif'' p \<or>
      ends_in ''webp'' p \<or> ends_in ''svg'' p \<or> ends_in ''ico'' p)"

definition spec_router :: "string \<Rightarrow> request \<Rightarrow> strategy option" where
  "spec_router so req =
     (if method req \<noteq> ''GET'' then None
      else if mode req = ''navigate'' then Some NetworkFirstNavigation
      else if origin (url req) = so \<and> stylesheet_or_script (pathname (url req))
        then Some StaleWhileRevalidate
      else if origin (url req) = so \<and> known_image (pathname (url req)) then Some CacheFirst
      else Some NetworkWithCacheFallback)"

section \<open>Strategies\<close>

text \<open>
  The document \<open>networkFirstNavigation\<close> synthesizes: \<open>new Response(html, {headers})\<close>,
  whose status is the default 200.
\<close>

definition offline_body :: string where
  \<open>offline_body = ''<!doctype html><html><head><meta charset="utf-8"><title>Offline</title><meta name="viewport" content="width=device-width, initial-scale=1"/></head><body><h1>Offline</h1><p>The app is unavailable offline for this page.</p></body></html>''\<close>

definition offline_response :: response where
  "offline_response =
     \<lparr>status = 200, headers = [(''Content-Type'', ''text/html; charset=utf-8'')],
      body = offline_body\<rparr>"

text \<open>
  \<open>networkFirstNavigation\<close>: the \<open>try\<close> block fetches, opens the current cache, puts the
  fresh response under \<open>ENTRY_HTML\<close> and returns it; the \<open>catch\<close> block returns
  \<open>caches.match(ENTRY_HTML) || caches.match('/') || new Response(...)\<close>.
\<close>

definition networkFirstNavigation ::
  "string \<Rightarrow> transport \<Rightarrow> request \<Rightarrow> world \<Rightarrow> jsval settled \<times> world" where
  "networkFirstNavigation so net request w =
     (case fetch net request w of
        (Fulfilled fresh, w1) \<Rightarrow>
          (let cs = caches_open CACHE_NAME (caches w1)
           in (Fulfilled (Resp fresh),
               w1\<lparr>caches := cache_put CACHE_NAME (resolve so ENTRY_HTML) fresh cs\<rparr>))
      | (Rejected, w1) \<Rightarrow>
          (let first = caches_match (caches w1) (resolve so ENTRY_HTML);
               cached = (if truthy (Plain first) then first
                         else caches_match (caches w1) (resolve so ''/''))
           in (Fulfilled (if truthy (Plain cached) then cached else Resp offline_response),
               w1)))"

text \<open>
  \<open>staleWhileRevalidate\<close>: open the current cache, look the request up, start the fetch
  whose \<open>then\<close> stores the response and whose \<open>catch\<close> yields \<open>undefined\<close>, and
  \<open>return cached || networkPromise || fetch(request)\<close>. The world returned is the one
  in which the fetch started here has settled.
\<close>

definition staleWhileRevalidate ::
  "transport \<Rightarrow> request \<Rightarrow> world \<Rightarrow> jsval settled \<times> world" where
  "staleWhileRevalidate net request w =
     (let w1 = w\<lparr>caches := caches_open CACHE_NAME (caches w)\<rparr>;
          cached = cache_match (caches w1) CACHE_NAME (url request)
      in case fetch net request w1 of (res, w2) \<Rightarrow>
        (let networkPromise =
               (case res of Fulfilled r \<Rightarrow> Promise (Fulfilled (Resp r))
                          | Rejected \<Rightarrow> Promise (Fulfilled Undefined));
             w3 = (case res of
                     Fulfilled r \<Rightarrow>
                       w2\<lparr>caches := cache_put CACHE_NAME (url request) r (caches w2)\<rparr>
                   | Rejected \<Rightarrow> w2)
         in if truthy (Plain cached) then (async_return (Plain cached), w3)
            else if truthy networkPromise then (async_return networkPromise, w3)
            else (case fetch net request w3 of (res2, w4) \<Rightarrow>
                    (async_return (Promise (map_settled Resp res2)), w4))))"

text \<open>
  \<open>cacheFirst\<close>: open the current cache, look the request up, return a hit; on a miss
  \<open>await fetch(request)\<close> (a rejection leaves the function), store the response and
  return it.
\<close>

definition cacheFirst :: "transport \<Rightarrow> request \<Rightarrow> world \<Rightarrow> jsval settled \<times> world" where
  "cacheFirst net request w =
     (let w1 = w\<lparr>caches := caches_open CACHE_NAME (caches w)\<rparr>;
          cached = cache_match (caches w1) CACHE_NAME (url request)
      in if truthy (Plain cached) then (Fulfilled cached, w1)
         else (case fetch net request w1 of
                 (Rejected, w2) \<Rightarrow> (Rejected, w2)
               | (Fulfilled res, w2) \<Rightarrow>
                   (Fulfilled (Resp res),
                    w2\<lparr>caches := cache_put CACHE_NAME (url request) res (caches w2)\<rparr>)))"

text \<open>The default branch of the listener: \<open>fetch(req).catch(() => caches.match(req))\<close>.\<close>

definition networkWithCacheFallback ::
  "transport \<Rightarrow> request \<Rightarrow> world \<Rightarrow> jsval settled \<times> world" where
  "networkWithCacheFallback net req w =
     (case fetch net req w of
        (Fulfilled r, w1) \<Rightarrow> (Fulfilled (Resp r), w1)
      | (Rejected, w1) \<Rightarrow> (Fulfilled (caches_match (caches w1) (url req)), w1))"

section \<open>Handling one request\<close>

fun run_strategy ::
  "string \<Rightarrow> transport \<Rightarrow> strategy \<Rightarrow> request \<Rightarrow> world \<Rightarrow> jsval settled \<times> world" where
  "run_strategy so net NetworkFirstNavigation req w = networkFirstNavigation so net req w"
| "run_strategy so net StaleWhileRevalidate req w = staleWhileRevalidate net req w"
| "run_strategy so net CacheFirst req w = cacheFirst net req w"
| "run_strategy so net NetworkWithCacheFallback req w = networkWithCacheFallback net req w"

text \<open>
  What the page gets for a request: nothing from the worker when the listener made no
  \<open>respondWith\<close> call (the request goes to the network as if there were no worker),
  and otherwise the outcome of the promise given to \<open>respondWith\<close>.
\<close>

datatype handled = NotIntercepted | Responded client_result

definition on_fetch :: "string \<Rightarrow> transport \<Rightarrow> request \<Rightarrow> world \<Rightarrow> handled \<times> world" where
  "on_fetch so net req w =
     (case fetch_listener so req of
        [] \<Rightarrow> (NotIntercepted, w)
      | s # rest \<Rightarrow>
          (case run_strategy so net s req w of (p, w1) \<Rightarrow> (Responded (respondWith p), w1)))"

section \<open>Concrete requests, responses, transports and states\<close>

definition ex_origin :: string where
  "ex_origin = ''https://app.example''"

definition get_request :: "string \<Rightarrow> string \<Rightarrow> request" where
  "get_request m p = \<lparr>method = ''GET'', mode = m, url = resolve ex_origin p\<rparr>"

definition post_request :: request where
  "post_request = \<lparr>method = ''POST'', mode = ''navigate'', url = resolve ex_origin ''/submit''\<rparr>"

definition foreign_request :: request where
  "foreign_request =
     \<lparr>method = ''GET'', mode = ''no-cors'', url = resolve ''https://cdn.example'' ''/lib.js''\<rparr>"

definition ok_response :: response where
  "ok_response = \<lparr>status = 200, headers = [], body = ''fresh''\<rparr>"

definition old_response :: response where
  "old_response = \<lparr>status = 200, headers = [], body = ''old''\<rparr>"

definition error_response :: response where
  "error_response = \<lparr>status = 500, headers = [], body = ''Internal Server Error''\<rparr>"

definition partial_response :: response where
  "partial_response = \<lparr>status = 206, headers = [], body = ''part''\<rparr>"

definition vary_response :: response where
  "vary_response =
     \<lparr>status = 200, headers = [(''Vary'', ''Accept-Encoding, *'')], body = ''varying''\<rparr>"

definition net_partial :: transport where
  "net_partial n req = Fulfilled partial_response"

definition net_vary :: transport where
  "net_vary n req = Fulfilled vary_response"

definition net_down :: transport where
  "net_down n req = Rejected"

definition net_up :: transport where
  "net_up n req = Fulfilled ok_response"

definition net_error_page :: transport where
  "net_error_page n req = Fulfilled error_response"

definition net_down_once :: transport where
  "net_down_once n req = (if n = 0 then Rejected else Fulfilled ok_response)"

definition net_flaky :: transport where
  "net_flaky n req = (if n = 2 then Rejected else Fulfilled ok_response)"

definition world0 :: world where
  "world0 = \<lparr>caches = [], calls = 0, skip_waiting = False, claimed = False\<rparr>"

definition world_with :: "string \<Rightarrow> response \<Rightarrow> world" where
  "world_with p r =
     \<lparr>caches = [(CACHE_NAME, [resolve ex_origin p \<mapsto> r])], calls = 0,
      skip_waiting = True, claimed = True\<rparr>"

definition world_stale :: world where
  "world_stale =
     \<lparr>caches = [(''old-cache-v1'', [resolve ex_origin ''/'' \<mapsto> old_response]),
                (CACHE_NAME, [resolve ex_origin ENTRY_HTML \<mapsto> ok_response]),
                (''awc-cache-v1'', Map.empty)],
      calls = 6, skip_waiting = True, claimed = False\<rparr>"

section \<open>The cache store: lookups after open, put and delete\<close>

lemma store_get_Nil: "store_get [] m j = None"
  by (simp add: store_get_def)

lemma store_get_Cons:
  "store_get (p # cs) m j = (if fst p = m then snd p j else store_get cs m j)"
  by (cases p) (simp add: store_get_def)

lemma store_get_Some_key: "store_get cs n k = Some c \<Longrightarrow> n \<in> fst ` set cs"
  by (induction cs) (auto simp: store_get_Cons store_get_Nil split: if_splits)

lemma store_get_open: "store_get (caches_open n cs) m k = store_get cs m k"
  by (auto simp: store_get_def caches_open_def map_of_eq_None_iff[symmetric] map_add_def
      split: option.splits)

lemma keys_open: "n \<in> fst ` set (caches_open n cs)"
  by (simp add: caches_open_def)

lemma store_write_Nil: "store_write n k r [] = []"
  by (simp add: store_write_def)

lemma store_write_Cons:
  "store_write n k r (p # cs) =
     (if fst p = n then (fst p, (snd p)(k \<mapsto> r)) else p) # store_write n k r cs"
  by (simp add: store_write_def)

lemma store_get_write:
  "store_get (store_write n k r cs) m j =
     (if m = n \<and> j = k \<and> n \<in> fst ` set cs then Some r else store_get cs m j)"
  by (induction cs)
    (force simp: store_get_Cons store_get_Nil store_write_Cons store_write_Nil)+

lemma keys_write: "fst ` set (store_write n k r cs) = fst ` set cs"
  by (induction cs) (auto simp: store_write_def)

lemma store_get_put:
  "store_get (cache_put n k r cs) m j =
     (if m = n \<and> j = k \<and> n \<in> fst ` set cs \<and> put_accepts r then Some r
      else store_get cs m j)"
  by (simp add: cache_put_def store_get_write)

lemma accepts_plain: "headers r = [] \<Longrightarrow> put_accepts r = (status r \<noteq> 206)"
  by (simp add: put_accepts_def vary_star_def)

lemma store_get_filter: "store_get (filter (\<lambda>p. fst p = n) cs) n k = store_get cs n k"
  by (induction cs) (simp_all add: store_get_Cons store_get_Nil)

lemma caches_match_single:
  "caches_keys cs = [n] \<Longrightarrow> caches_match cs k = of_entry (store_get cs n k)"
  by (cases cs) (auto simp: caches_keys_def store_get_Cons of_entry_def split: option.splits)

lemma truthy_Plain: "truthy (Plain v) = (v \<noteq> Undefined)"
  by (cases v) simp_all

section \<open>The router\<close>

lemma regex_test_suffix:
  "regex_test alts s \<longleftrightarrow> (\<exists>a \<in> set alts. suffix (CHR ''.'' # a) s)"
proof (induction s)
  case Nil
  then show ?case by (auto simp: matches_here_def)
next
  case (Cons c t)
  then show ?case by (auto simp: matches_here_def suffix_Cons)
qed

lemma router_refines:
  "fetch_listener so req = (case spec_router so req of None \<Rightarrow> [] | Some s \<Rightarrow> [s])"
  by (simp add: fetch_listener_def spec_router_def stylesheet_or_script_def known_image_def
      ends_in_def regex_test_suffix)

lemma on_fetch_fst:
  "fetch_listener so req = [s] \<Longrightarrow>
   fst (on_fetch so net req w) = Responded (respondWith (fst (run_strategy so net s req w)))"
  by (simp add: on_fetch_def split: prod.splits)

section \<open>Claims about the router\<close>

text \<open>
  C1. For every request the listener makes at most one \<open>respondWith\<close> call, chosen as the
  specification orders it (\<open>spec_router\<close>: not \<open>GET\<close>, then navigation, then same origin
  with a path ending in \<open>.css\<close> or \<open>.js\<close>, then same origin with a path ending in an
  image extension, then everything else; extensions compared character by character).
  A request that is not a \<open>GET\<close> invokes no strategy and leaves the state as it was; a
  \<open>GET\<close> invokes exactly one strategy, whose outcome is what the page receives.
\<close>

theorem router_selects_one_strategy:
  "fetch_listener so req = (case spec_router so req of None \<Rightarrow> [] | Some s \<Rightarrow> [s]) \<and>
   length (fetch_listener so req) \<le> 1 \<and>
   (method req \<noteq> ''GET'' \<longrightarrow>
      fetch_listener so req = [] \<and> on_fetch so net req w = (NotIntercepted, w)) \<and>
   (method req = ''GET'' \<longrightarrow>
      (\<exists>s. fetch_listener so req = [s] \<and>
           on_fetch so net req w =
             (Responded (respondWith (fst (run_strategy so net s req w))),
              snd (run_strategy so net s req w))))"
proof -
  have r: "fetch_listener so req = (case spec_router so req of None \<Rightarrow> [] | Some s \<Rightarrow> [s])"
    by (rule router_refines)
  have n: "method req \<noteq> ''GET'' \<Longrightarrow> spec_router so req = None"
    by (simp add: spec_router_def)
  have g: "method req = ''GET'' \<Longrightarrow> \<exists>s. spec_router so req = Some s"
    by (simp add: spec_router_def)
  show ?thesis
  proof (cases "method req = ''GET''")
    case True
    then obtain s where "spec_router so req = Some s" using g by blast
    then have "fetch_listener so req = [s]" using r by simp
    then show ?thesis
      using True r by (simp add: on_fetch_def split: prod.splits)
  next
    case False
    then have "fetch_listener so req = []" using n r by simp
    then show ?thesis
      using False r by (simp add: on_fetch_def)
  qed
qed

theorem router_selects_one_strategy_witness:
  "fetch_listener ex_origin post_request = [] \<and>
   on_fetch ex_origin net_up post_request world0 = (NotIntercepted, world0) \<and>
   fetch_listener ex_origin (get_request ''navigate'' ''/about.css'') = [NetworkFirstNavigation] \<and>
   fetch_listener ex_origin (get_request ''no-cors'' ''/static/app.js'') = [StaleWhileRevalidate] \<and>
   fetch_listener ex_origin (get_request ''no-cors'' ''/site.css'') = [StaleWhileRevalidate] \<and>
   fetch_listener ex_origin (get_request ''no-cors'' ''/icons/logo.jpeg'') = [CacheFirst] \<and>
   fetch_listener ex_origin (get_request ''no-cors'' ''/APP.JS'') = [NetworkWithCacheFallback] \<and>
   fetch_listener ex_origin (get_request ''cors'' ''/manifest.json'') = [NetworkWithCacheFallback] \<and>
   fetch_listener ex_origin foreign_request = [NetworkWithCacheFallback]"
  using router_selects_one_strategy[of ex_origin post_request net_up world0]
    router_selects_one_strategy[of ex_origin "get_request ''navigate'' ''/about.css''" net_up world0]
    router_selects_one_strategy[of ex_origin "get_request ''no-cors'' ''/static/app.js''" net_up world0]
    router_selects_one_strategy[of ex_origin "get_request ''no-cors'' ''/site.css''" net_up world0]
    router_selects_one_strategy[of ex_origin "get_request ''no-cors'' ''/icons/logo.jpeg''" net_up world0]
    router_selects_one_strategy[of ex_origin "get_request ''no-cors'' ''/APP.JS''" net_up world0]
    router_selects_one_strategy[of ex_origin "get_request ''cors'' ''/manifest.json''" net_up world0]
    router_selects_one_strategy[of ex_origin foreign_request net_up world0]
  by (simp add: spec_router_def stylesheet_or_script_def known_image_def ends_in_def
      post_request_def get_request_def foreign_request_def resolve_def ex_origin_def
      suffix_Cons)

section \<open>The strategies: what they return and what they store\<close>

lemma nfn_failure:
  "net (calls w) req = Rejected \<Longrightarrow>
   networkFirstNavigation so net req w =
     (Fulfilled (Resp
        (case caches_match (caches w) (resolve so ENTRY_HTML) of
           Resp c \<Rightarrow> c
         | Undefined \<Rightarrow>
             (case caches_match (caches w) (resolve so ''/'') of
                Resp c \<Rightarrow> c
              | Undefined \<Rightarrow> offline_response))),
      w\<lparr>calls := Suc (calls w)\<rparr>)"
  by (simp add: networkFirstNavigation_def fetch_def Let_def truthy_Plain split: jsval.splits)

lemma nfn_success:
  "net (calls w) req = Fulfilled r \<Longrightarrow>
   networkFirstNavigation so net req w =
     (Fulfilled (Resp r),
      w\<lparr>calls := Suc (calls w),
        caches := cache_put CACHE_NAME (resolve so ENTRY_HTML) r
                    (caches_open CACHE_NAME (caches w))\<rparr>)"
  by (simp add: networkFirstNavigation_def fetch_def Let_def)

lemma swr_general:
  "calls (snd (staleWhileRevalidate net req w)) = Suc (calls w) \<and>
   fst (staleWhileRevalidate net req w) =
     (case store_get (caches w) CACHE_NAME (url req) of
        Some c \<Rightarrow> Fulfilled (Resp c)
      | None \<Rightarrow> (case net (calls w) req of
                   Fulfilled r \<Rightarrow> Fulfilled (Resp r)
                 | Rejected \<Rightarrow> Fulfilled Undefined))"
  by (simp add: staleWhileRevalidate_def Let_def fetch_def cache_match_def of_entry_def
      store_get_open split: settled.splits option.splits)

lemma swr_store:
  "net (calls w) req = Fulfilled r \<Longrightarrow>
   store_get (caches (snd (staleWhileRevalidate net req w))) CACHE_NAME (url req) =
     (if put_accepts r then Some r else store_get (caches w) CACHE_NAME (url req))"
  by (simp add: staleWhileRevalidate_def Let_def fetch_def cache_match_def of_entry_def
      store_get_open store_get_put keys_open split: option.splits)

lemma cf_general:
  "fst (cacheFirst net req w) =
     (case store_get (caches w) CACHE_NAME (url req) of
        Some c \<Rightarrow> Fulfilled (Resp c)
      | None \<Rightarrow> map_settled Resp (net (calls w) req))"
  by (simp add: cacheFirst_def Let_def fetch_def cache_match_def of_entry_def
      store_get_open split: settled.splits option.splits)

lemma cf_store:
  "net (calls w) req = Fulfilled r \<Longrightarrow> store_get (caches w) CACHE_NAME (url req) = None \<Longrightarrow>
   store_get (caches (snd (cacheFirst net req w))) CACHE_NAME (url req) =
     (if put_accepts r then Some r else None)"
  by (simp add: cacheFirst_def Let_def fetch_def cache_match_def of_entry_def
      store_get_open store_get_put keys_open)

lemma cf_calls:
  "store_get (caches w) CACHE_NAME (url req) = None \<Longrightarrow>
   calls (snd (cacheFirst net req w)) = Suc (calls w)"
  by (simp add: cacheFirst_def Let_def cache_match_def of_entry_def store_get_open fetch_def
      split: settled.splits)

lemma cf_hit:
  "store_get (caches w) CACHE_NAME (url req) = Some c \<Longrightarrow>
   cacheFirst net req w = (Fulfilled (Resp c), w)"
proof -
  assume h: "store_get (caches w) CACHE_NAME (url req) = Some c"
  then have "CACHE_NAME \<in> set (map fst (caches w))"
    by (simp add: store_get_Some_key)
  then have "caches_open CACHE_NAME (caches w) = caches w"
    by (simp add: caches_open_def)
  with h show "cacheFirst net req w = (Fulfilled (Resp c), w)"
    by (simp add: cacheFirst_def Let_def cache_match_def of_entry_def)
qed

section \<open>Claims about Network-First-Navigation\<close>

text \<open>
  C2, as stated, fails for a response the store refuses: the fetch of a navigation
  request resolves with a page that carries \<open>Vary: Accept-Encoding, *\<close>, or with a
  status-206 page; \<open>networkFirstNavigation\<close> returns it, and the unawaited \<open>cache.put\<close>
  is rejected, so the current store holds nothing under the key of \<open>ENTRY_HTML\<close>.
\<close>

theorem navigation_response_returned_not_stored:
  "net_vary (calls world0) (get_request ''navigate'' ''/about'') = Fulfilled vary_response \<and>
   fst (networkFirstNavigation ex_origin net_vary (get_request ''navigate'' ''/about'') world0) =
     Fulfilled (Resp vary_response) \<and>
   store_get
     (caches (snd (networkFirstNavigation ex_origin net_vary (get_request ''navigate'' ''/about'')
        world0)))
     CACHE_NAME (resolve ex_origin ENTRY_HTML) = None \<and>
   net_partial (calls world0) (get_request ''navigate'' ''/about'') = Fulfilled partial_response \<and>
   fst (networkFirstNavigation ex_origin net_partial (get_request ''navigate'' ''/about'') world0) =
     Fulfilled (Resp partial_response) \<and>
   store_get
     (caches (snd (networkFirstNavigation ex_origin net_partial
        (get_request ''navigate'' ''/about'') world0)))
     CACHE_NAME (resolve ex_origin ENTRY_HTML) = None"
proof -
  have v: "\<not> put_accepts vary_response"
    by (simp add: put_accepts_def vary_star_def vary_response_def ascii_lower_def trim_def
        http_space_def)
  have p: "\<not> put_accepts partial_response"
    by (simp add: put_accepts_def partial_response_def)
  have e: "store_get (caches world0) n k = None" for n k
    by (simp add: world0_def store_get_def)
  show ?thesis
    using v p e
    by (simp add: nfn_success net_vary_def net_partial_def store_get_put store_get_open)
qed

text \<open>
  C2, amended. When the fetch of a navigation request succeeds,
  \<open>networkFirstNavigation\<close> is fulfilled with exactly the network response, which is what
  the page receives. When the store accepts the response (its status is not 206 and it
  has no \<open>Vary: *\<close>), the current store then holds it under the key of \<open>ENTRY_HTML\<close>;
  when the store refuses it, the entry under that key is what it was. No other key of
  any store changes (in particular not the URL that was requested). One fetch is made.
\<close>

theorem navigation_network_success:
  assumes "net (calls w) req = Fulfilled r"
  shows "fst (networkFirstNavigation so net req w) = Fulfilled (Resp r) \<and>
         respondWith (fst (networkFirstNavigation so net req w)) = Response r \<and>
         (put_accepts r \<longrightarrow>
            store_get (caches (snd (networkFirstNavigation so net req w))) CACHE_NAME
              (resolve so ENTRY_HTML) = Some r) \<and>
         (\<not> put_accepts r \<longrightarrow>
            store_get (caches (snd (networkFirstNavigation so net req w))) CACHE_NAME
              (resolve so ENTRY_HTML) = store_get (caches w) CACHE_NAME (resolve so ENTRY_HTML)) \<and>
         (\<forall>n k. (n, k) \<noteq> (CACHE_NAME, resolve so ENTRY_HTML) \<longrightarrow>
            store_get (caches (snd (networkFirstNavigation so net req w))) n k =
            store_get (caches w) n k) \<and>
         calls (snd (networkFirstNavigation so net req w)) = Suc (calls w)"
  using assms
  by (auto simp: nfn_success store_get_put store_get_open keys_open)

theorem navigation_network_success_witness:
  "net_up (calls world0) (get_request ''navigate'' ''/about'') = Fulfilled ok_response \<and>
   put_accepts ok_response \<and>
   fst (networkFirstNavigation ex_origin net_up (get_request ''navigate'' ''/about'') world0) =
     Fulfilled (Resp ok_response) \<and>
   store_get
     (caches (snd (networkFirstNavigation ex_origin net_up (get_request ''navigate'' ''/about'')
        world0)))
     CACHE_NAME (resolve ex_origin ''/index.html'') = Some ok_response \<and>
   store_get
     (caches (snd (networkFirstNavigation ex_origin net_up (get_request ''navigate'' ''/about'')
        world0)))
     CACHE_NAME (url (get_request ''navigate'' ''/about'')) = None \<and>
   net_partial (calls (world_with ''/index.html'' old_response))
     (get_request ''navigate'' ''/about'') = Fulfilled partial_response \<and>
   \<not> put_accepts partial_response \<and>
   fst (networkFirstNavigation ex_origin net_partial (get_request ''navigate'' ''/about'')
          (world_with ''/index.html'' old_response)) = Fulfilled (Resp partial_response) \<and>
   store_get
     (caches (snd (networkFirstNavigation ex_origin net_partial
        (get_request ''navigate'' ''/about'') (world_with ''/index.html'' old_response))))
     CACHE_NAME (resolve ex_origin ''/index.html'') = Some old_response"
proof -
  have h: "net_up (calls world0) (get_request ''navigate'' ''/about'') = Fulfilled ok_response"
    "net_partial (calls (world_with ''/index.html'' old_response))
       (get_request ''navigate'' ''/about'') = Fulfilled partial_response"
    by (simp_all add: net_up_def net_partial_def)
  have a: "put_accepts ok_response" "\<not> put_accepts partial_response"
    by (simp_all add: accepts_plain ok_response_def partial_response_def)
  have k: "(CACHE_NAME, url (get_request ''navigate'' ''/about'')) \<noteq>
           (CACHE_NAME, resolve ex_origin ENTRY_HTML)"
    by (simp add: get_request_def resolve_def ENTRY_HTML_def)
  have e: "store_get (caches world0) CACHE_NAME (url (get_request ''navigate'' ''/about'')) = None"
    "store_get (caches (world_with ''/index.html'' old_response)) CACHE_NAME
       (resolve ex_origin ENTRY_HTML) = Some old_response"
    by (simp_all add: world0_def world_with_def store_get_def ENTRY_HTML_def)
  show ?thesis
    using navigation_network_success[of net_up world0 "get_request ''navigate'' ''/about''"
        ok_response ex_origin]
      navigation_network_success[of net_partial "world_with ''/index.html'' old_response"
        "get_request ''navigate'' ''/about''" partial_response ex_origin]
      h a k e
    by (simp add: ENTRY_HTML_def)
qed

text \<open>
  C3. When the fetch of a navigation request fails, \<open>networkFirstNavigation\<close> is fulfilled
  with what \<open>caches.match\<close> finds under the key of \<open>ENTRY_HTML\<close>, otherwise with what it
  finds under the key of \<open>/\<close>, otherwise with the synthesized document: status 200,
  content type \<open>text/html\<close>, a body that starts with the HTML doctype and says that the app
  is unavailable offline. The page always receives a response, and the stores are left as
  they were. \<open>caches.match\<close> asks every store of the origin; when the current store is the
  only one, as after activation, its answer is the entry of the current store.
\<close>

theorem navigation_network_failure:
  assumes "net (calls w) req = Rejected"
  shows "networkFirstNavigation so net req w =
           (Fulfilled (Resp
              (case caches_match (caches w) (resolve so ENTRY_HTML) of
                 Resp c \<Rightarrow> c
               | Undefined \<Rightarrow>
                   (case caches_match (caches w) (resolve so ''/'') of
                      Resp c \<Rightarrow> c
                    | Undefined \<Rightarrow> offline_response))),
            w\<lparr>calls := Suc (calls w)\<rparr>) \<and>
         (\<exists>d. respondWith (fst (networkFirstNavigation so net req w)) = Response d) \<and>
         status offline_response = 200 \<and>
         (''Content-Type'', ''text/html; charset=utf-8'') \<in> set (headers offline_response) \<and>
         prefix ''<!doctype html>'' (body offline_response) \<and>
         sublist ''The app is unavailable offline for this page.'' (body offline_response) \<and>
         (caches_keys (caches w) = [CACHE_NAME] \<longrightarrow>
            (\<forall>k. caches_match (caches w) k = of_entry (store_get (caches w) CACHE_NAME k)))"
proof -
  have 2: "status offline_response = 200"
    "(''Content-Type'', ''text/html; charset=utf-8'') \<in> set (headers offline_response)"
    by (simp_all add: offline_response_def)
  have 3: "prefix ''<!doctype html>'' (body offline_response)"
    by (simp add: offline_response_def offline_body_def)
  have 4: "sublist ''The app is unavailable offline for this page.'' (body offline_response)"
    unfolding offline_response_def offline_body_def by code_simp
  show ?thesis
    unfolding nfn_failure[of net w req so, OF assms] using 2 3 4
    by (simp add: caches_match_single)
qed

theorem navigation_network_failure_witness:
  "net_down (calls world0) (get_request ''navigate'' ''/about'') = Rejected \<and>
   fst (networkFirstNavigation ex_origin net_down (get_request ''navigate'' ''/about'')
          (world_with ''/index.html'' old_response)) = Fulfilled (Resp old_response) \<and>
   fst (networkFirstNavigation ex_origin net_down (get_request ''navigate'' ''/about'')
          (world_with ''/'' old_response)) = Fulfilled (Resp old_response) \<and>
   fst (networkFirstNavigation ex_origin net_down (get_request ''navigate'' ''/about'')
          world0) = Fulfilled (Resp offline_response) \<and>
   caches_keys (caches (world_with ''/'' old_response)) = [CACHE_NAME] \<and>
   caches_match (caches (world_with ''/'' old_response)) (resolve ex_origin ''/'') =
     of_entry (store_get (caches (world_with ''/'' old_response)) CACHE_NAME
       (resolve ex_origin ''/''))"
proof -
  have h: "net_down n (get_request ''navigate'' ''/about'') = Rejected" for n
    by (simp add: net_down_def)
  show ?thesis
    using navigation_network_failure[of net_down "world_with ''/index.html'' old_response"
        "get_request ''navigate'' ''/about''" ex_origin]
      navigation_network_failure[of net_down "world_with ''/'' old_response"
        "get_request ''navigate'' ''/about''" ex_origin]
      navigation_network_failure[of net_down world0
        "get_request ''navigate'' ''/about''" ex_origin]
      h
    by (simp add: world_with_def world0_def ENTRY_HTML_def resolve_def caches_keys_def
        store_get_def of_entry_def)
qed

section \<open>Claims about Cache-First\<close>

text \<open>
  C5, as stated, fails on a miss whose response the store refuses: the fetch of
  \<open>/logo.png\<close> resolves with a response carrying \<open>Vary: Accept-Encoding, *\<close>;
  \<open>cacheFirst\<close> returns it, the unawaited \<open>cache.put\<close> is rejected, the store has no
  entry for the request afterwards, and the same request fetches again.
\<close>

theorem cache_first_response_returned_not_stored:
  "store_get (caches world0) CACHE_NAME (url (get_request ''no-cors'' ''/logo.png'')) = None \<and>
   net_vary (calls world0) (get_request ''no-cors'' ''/logo.png'') = Fulfilled vary_response \<and>
   fst (cacheFirst net_vary (get_request ''no-cors'' ''/logo.png'') world0) =
     Fulfilled (Resp vary_response) \<and>
   store_get (caches (snd (cacheFirst net_vary (get_request ''no-cors'' ''/logo.png'') world0)))
     CACHE_NAME (url (get_request ''no-cors'' ''/logo.png'')) = None \<and>
   calls (snd (cacheFirst net_vary (get_request ''no-cors'' ''/logo.png'')
     (snd (cacheFirst net_vary (get_request ''no-cors'' ''/logo.png'') world0)))) = 2"
proof -
  have v: "\<not> put_accepts vary_response"
    by (simp add: put_accepts_def vary_star_def vary_response_def ascii_lower_def trim_def
        http_space_def)
  have e: "store_get (caches world0) CACHE_NAME k = None" for k
    by (simp add: world0_def store_get_def)
  have n: "net_vary n r = Fulfilled vary_response" for n r
    by (simp add: net_vary_def)
  have c: "calls world0 = 0" by (simp add: world0_def)
  have s: "store_get (caches (snd (cacheFirst net_vary (get_request ''no-cors'' ''/logo.png'')
      world0))) CACHE_NAME (url (get_request ''no-cors'' ''/logo.png'')) = None"
    using cf_store[of net_vary world0 "get_request ''no-cors'' ''/logo.png''" vary_response]
    by (simp add: n e v)
  have c1: "calls (snd (cacheFirst net_vary (get_request ''no-cors'' ''/logo.png'') world0)) = 1"
    using e by (simp add: cf_calls c)
  have c2: "calls (snd (cacheFirst net_vary (get_request ''no-cors'' ''/logo.png'')
     (snd (cacheFirst net_vary (get_request ''no-cors'' ''/logo.png'') world0)))) = 2"
    using s by (simp add: cf_calls c1)
  show ?thesis
    using e n s c2 by (simp add: cf_general)
qed

text \<open>
  C5, amended. When the current store holds an entry for the request, \<open>cacheFirst\<close> is
  fulfilled with that entry and the state is unchanged: no fetch is made. When it holds
  none, exactly one fetch is made, and when that fetch succeeds its response is returned;
  the response is afterwards the entry of the current store for the request when the
  store accepts it (status not 206, no \<open>Vary: *\<close>), and the store still has no entry for
  the request when it refuses it.
\<close>

theorem cache_first_hit_and_miss:
  "(store_get (caches w) CACHE_NAME (url req) = Some c \<longrightarrow>
      cacheFirst net req w = (Fulfilled (Resp c), w)) \<and>
   (store_get (caches w) CACHE_NAME (url req) = None \<longrightarrow>
      calls (snd (cacheFirst net req w)) = Suc (calls w) \<and>
      (\<forall>r. net (calls w) req = Fulfilled r \<longrightarrow>
         fst (cacheFirst net req w) = Fulfilled (Resp r) \<and>
         (put_accepts r \<longrightarrow>
            store_get (caches (snd (cacheFirst net req w))) CACHE_NAME (url req) = Some r) \<and>
         (\<not> put_accepts r \<longrightarrow>
            store_get (caches (snd (cacheFirst net req w))) CACHE_NAME (url req) = None)))"
proof (intro conjI impI allI)
  assume "store_get (caches w) CACHE_NAME (url req) = Some c"
  then show "cacheFirst net req w = (Fulfilled (Resp c), w)"
    by (rule cf_hit)
next
  assume "store_get (caches w) CACHE_NAME (url req) = None"
  then show "calls (snd (cacheFirst net req w)) = Suc (calls w)"
    by (rule cf_calls)
next
  fix r
  assume "store_get (caches w) CACHE_NAME (url req) = None" and "net (calls w) req = Fulfilled r"
  then show "fst (cacheFirst net req w) = Fulfilled (Resp r)"
    by (simp add: cf_general)
next
  fix r
  assume "store_get (caches w) CACHE_NAME (url req) = None" and "net (calls w) req = Fulfilled r"
    and "put_accepts r"
  then show "store_get (caches (snd (cacheFirst net req w))) CACHE_NAME (url req) = Some r"
    by (simp add: cf_store)
next
  fix r
  assume "store_get (caches w) CACHE_NAME (url req) = None" and "net (calls w) req = Fulfilled r"
    and "\<not> put_accepts r"
  then show "store_get (caches (snd (cacheFirst net req w))) CACHE_NAME (url req) = None"
    by (simp add: cf_store)
qed

theorem cache_first_hit_and_miss_witness:
  "store_get (caches (world_with ''/logo.png'' old_response)) CACHE_NAME
     (url (get_request ''no-cors'' ''/logo.png'')) = Some old_response \<and>
   cacheFirst net_up (get_request ''no-cors'' ''/logo.png'') (world_with ''/logo.png'' old_response)
     = (Fulfilled (Resp old_response), world_with ''/logo.png'' old_response) \<and>
   calls (world_with ''/logo.png'' old_response) = 0 \<and>
   store_get (caches world0) CACHE_NAME (url (get_request ''no-cors'' ''/logo.png'')) = None \<and>
   net_up (calls world0) (get_request ''no-cors'' ''/logo.png'') = Fulfilled ok_response \<and>
   put_accepts ok_response \<and>
   calls (snd (cacheFirst net_up (get_request ''no-cors'' ''/logo.png'') world0)) = 1 \<and>
   fst (cacheFirst net_up (get_request ''no-cors'' ''/logo.png'') world0) =
     Fulfilled (Resp ok_response) \<and>
   store_get (caches (snd (cacheFirst net_up (get_request ''no-cors'' ''/logo.png'') world0)))
     CACHE_NAME (url (get_request ''no-cors'' ''/logo.png'')) = Some ok_response \<and>
   net_partial (calls world0) (get_request ''no-cors'' ''/logo.png'') = Fulfilled partial_response \<and>
   \<not> put_accepts partial_response \<and>
   fst (cacheFirst net_partial (get_request ''no-cors'' ''/logo.png'') world0) =
     Fulfilled (Resp partial_response) \<and>
   store_get (caches (snd (cacheFirst net_partial (get_request ''no-cors'' ''/logo.png'') world0)))
     CACHE_NAME (url (get_request ''no-cors'' ''/logo.png'')) = None"
proof -
  have a: "store_get (caches (world_with ''/logo.png'' old_response)) CACHE_NAME
     (url (get_request ''no-cors'' ''/logo.png'')) = Some old_response"
    by (simp add: world_with_def store_get_def get_request_def)
  have b: "store_get (caches world0) CACHE_NAME (url (get_request ''no-cors'' ''/logo.png'')) = None"
    by (simp add: world0_def store_get_def)
  have c: "net_up (calls world0) (get_request ''no-cors'' ''/logo.png'') = Fulfilled ok_response"
    "net_partial (calls world0) (get_request ''no-cors'' ''/logo.png'') = Fulfilled partial_response"
    by (simp_all add: net_up_def net_partial_def)
  have d: "calls (world_with ''/logo.png'' old_response) = 0" "calls world0 = 0"
    by (simp_all add: world_with_def world0_def)
  have p: "put_accepts ok_response" "\<not> put_accepts partial_response"
    by (simp_all add: accepts_plain ok_response_def partial_response_def)
  show ?thesis
    using cache_first_hit_and_miss[of "world_with ''/logo.png'' old_response"
        "get_request ''no-cors'' ''/logo.png''" old_response net_up]
      cache_first_hit_and_miss[of world0 "get_request ''no-cors'' ''/logo.png''" old_response
        net_up]
      cache_first_hit_and_miss[of world0 "get_request ''no-cors'' ''/logo.png''" old_response
        net_partial]
      a b c d p
    by simp
qed

section \<open>Claims about Network-With-Cache-Fallback\<close>

text \<open>
  C6. The default branch makes one fetch. When it succeeds the page receives the network
  response; when it fails the page receives what \<open>caches.match\<close> finds for the request,
  and a network error when it finds nothing. In every case the stores are left as they
  were: this strategy never writes.
\<close>

theorem default_network_then_cache:
  "(net (calls w) req = Fulfilled r \<longrightarrow>
      networkWithCacheFallback net req w = (Fulfilled (Resp r), w\<lparr>calls := Suc (calls w)\<rparr>) \<and>
      respondWith (fst (networkWithCacheFallback net req w)) = Response r) \<and>
   (net (calls w) req = Rejected \<longrightarrow>
      networkWithCacheFallback net req w =
        (Fulfilled (caches_match (caches w) (url req)), w\<lparr>calls := Suc (calls w)\<rparr>) \<and>
      (\<forall>c. caches_match (caches w) (url req) = Resp c \<longrightarrow>
         respondWith (fst (networkWithCacheFallback net req w)) = Response c) \<and>
      (caches_match (caches w) (url req) = Undefined \<longrightarrow>
         respondWith (fst (networkWithCacheFallback net req w)) = NetworkError)) \<and>
   caches (snd (networkWithCacheFallback net req w)) = caches w"
  by (auto simp: networkWithCacheFallback_def fetch_def split: settled.splits)

theorem default_network_then_cache_witness:
  "net_up (calls world0) (get_request ''cors'' ''/api/data'') = Fulfilled ok_response \<and>
   networkWithCacheFallback net_up (get_request ''cors'' ''/api/data'') world0 =
     (Fulfilled (Resp ok_response), world0\<lparr>calls := Suc (calls world0)\<rparr>) \<and>
   net_down (calls world0) (get_request ''cors'' ''/api/data'') = Rejected \<and>
   caches_match (caches (world_with ''/api/data'' old_response))
     (url (get_request ''cors'' ''/api/data'')) = Resp old_response \<and>
   respondWith (fst (networkWithCacheFallback net_down (get_request ''cors'' ''/api/data'')
       (world_with ''/api/data'' old_response))) = Response old_response \<and>
   caches_match (caches world0) (url (get_request ''cors'' ''/api/data'')) = Undefined \<and>
   respondWith (fst (networkWithCacheFallback net_down (get_request ''cors'' ''/api/data'')
       world0)) = NetworkError"
proof -
  have a: "net_up (calls world0) (get_request ''cors'' ''/api/data'') = Fulfilled ok_response"
    by (simp add: net_up_def)
  have b: "net_down n (get_request ''cors'' ''/api/data'') = Rejected" for n
    by (simp add: net_down_def)
  have c: "caches_match (caches (world_with ''/api/data'' old_response))
     (url (get_request ''cors'' ''/api/data'')) = Resp old_response"
    by (simp add: world_with_def get_request_def)
  have d: "caches_match (caches world0) (url (get_request ''cors'' ''/api/data'')) = Undefined"
    by (simp add: world0_def)
  show ?thesis
    using default_network_then_cache[of net_up world0 "get_request ''cors'' ''/api/data''"
        ok_response]
      default_network_then_cache[of net_down "world_with ''/api/data'' old_response"
        "get_request ''cors'' ''/api/data''" ok_response]
      default_network_then_cache[of net_down world0 "get_request ''cors'' ''/api/data''"
        ok_response]
      a b c d
    by simp
qed

section \<open>Claims about Stale-While-Revalidate\<close>

text \<open>
  C4. The request for \<open>/app.js\<close> with an empty cache storage and a transport whose first
  fetch fails and whose later fetches would succeed: \<open>networkPromise\<close> is a promise
  object, hence truthy, so \<open>cached || networkPromise || fetch(request)\<close> never reaches
  its last operand. The function is fulfilled with \<open>undefined\<close> after a single fetch, and
  the page gets a network error, although a second fetch would have been answered.
\<close>

theorem swr_no_final_fetch:
  "staleWhileRevalidate net_down_once (get_request ''no-cors'' ''/app.js'') world0 =
     (Fulfilled Undefined, world0\<lparr>caches := [(CACHE_NAME, Map.empty)], calls := 1\<rparr>) \<and>
   respondWith (fst (staleWhileRevalidate net_down_once (get_request ''no-cors'' ''/app.js'') world0))
     = NetworkError \<and>
   net_down_once 1 (get_request ''no-cors'' ''/app.js'') = Fulfilled ok_response \<and>
   fetch_listener ex_origin (get_request ''no-cors'' ''/app.js'') = [StaleWhileRevalidate]"
  by (simp add: staleWhileRevalidate_def Let_def fetch_def cache_match_def of_entry_def
      store_get_def caches_open_def world0_def net_down_once_def get_request_def
      fetch_listener_def matches_here_def resolve_def ex_origin_def)

section \<open>Claims about transport failures\<close>

text \<open>
  C7, as stated, fails for Cache-First: a same-origin \<open>GET\<close> for \<open>/logo.png\<close> with no
  cached entry and a failing transport is routed to \<open>cacheFirst\<close>, whose \<open>await fetch\<close>
  is not guarded, so the page gets a network error.
\<close>

theorem cache_first_propagates_failure:
  "method (get_request ''no-cors'' ''/logo.png'') = ''GET'' \<and>
   fetch_listener ex_origin (get_request ''no-cors'' ''/logo.png'') = [CacheFirst] \<and>
   net_down (calls world0) (get_request ''no-cors'' ''/logo.png'') = Rejected \<and>
   fst (on_fetch ex_origin net_down (get_request ''no-cors'' ''/logo.png'') world0) =
     Responded NetworkError"
  by (simp add: on_fetch_def cacheFirst_def Let_def fetch_def cache_match_def of_entry_def
      store_get_def caches_open_def world0_def net_down_def get_request_def
      fetch_listener_def matches_here_def resolve_def ex_origin_def)

text \<open>
  C7, amended. For a \<open>GET\<close> request whose fetch fails: routed to
  Network-First-Navigation, the page always receives a response; routed to
  Stale-While-Revalidate with an entry in the current store, it receives that entry;
  routed to Cache-First with an entry in the current store, it receives that entry and
  the state is unchanged, so no fetch is made at all; routed to Cache-First with no entry,
  it gets a network error; routed to Network-With-Cache-Fallback, it receives the entry
  \<open>caches.match\<close> finds and gets a network error when there is none.
\<close>

theorem transport_failure_recovery:
  assumes "method req = ''GET''" and "net (calls w) req = Rejected"
  shows
    "(fetch_listener so req = [NetworkFirstNavigation] \<longrightarrow>
        (\<exists>d. fst (on_fetch so net req w) = Responded (Response d))) \<and>
     (fetch_listener so req = [StaleWhileRevalidate] \<longrightarrow>
        (\<forall>c. store_get (caches w) CACHE_NAME (url req) = Some c \<longrightarrow>
           fst (on_fetch so net req w) = Responded (Response c))) \<and>
     (fetch_listener so req = [CacheFirst] \<longrightarrow>
        (\<forall>c. store_get (caches w) CACHE_NAME (url req) = Some c \<longrightarrow>
           fst (on_fetch so net req w) = Responded (Response c) \<and>
           on_fetch so net req w = (Responded (Response c), w)) \<and>
        (store_get (caches w) CACHE_NAME (url req) = None \<longrightarrow>
           fst (on_fetch so net req w) = Responded NetworkError)) \<and>
     (fetch_listener so req = [NetworkWithCacheFallback] \<longrightarrow>
        (\<forall>c. caches_match (caches w) (url req) = Resp c \<longrightarrow>
           fst (on_fetch so net req w) = Responded (Response c)) \<and>
        (caches_match (caches w) (url req) = Undefined \<longrightarrow>
           fst (on_fetch so net req w) = Responded NetworkError))"
proof (intro conjI impI allI)
  assume "fetch_listener so req = [NetworkFirstNavigation]"
  moreover obtain d where "fst (networkFirstNavigation so net req w) = Fulfilled (Resp d)"
    using nfn_failure[of net w req so] assms(2) by simp
  ultimately show "\<exists>d. fst (on_fetch so net req w) = Responded (Response d)"
    by (simp add: on_fetch_fst)
next
  fix c
  assume "fetch_listener so req = [StaleWhileRevalidate]"
    and "store_get (caches w) CACHE_NAME (url req) = Some c"
  then show "fst (on_fetch so net req w) = Responded (Response c)"
    using swr_general[of net req w] by (simp add: on_fetch_fst)
next
  fix c
  assume "fetch_listener so req = [CacheFirst]"
    and "store_get (caches w) CACHE_NAME (url req) = Some c"
  then show "fst (on_fetch so net req w) = Responded (Response c)"
    using cf_general[of net req w] by (simp add: on_fetch_fst)
next
  fix c
  assume "fetch_listener so req = [CacheFirst]"
    and "store_get (caches w) CACHE_NAME (url req) = Some c"
  then show "on_fetch so net req w = (Responded (Response c), w)"
    using cf_hit[of w req c net] by (simp add: on_fetch_def)
next
  assume "fetch_listener so req = [CacheFirst]"
    and "store_get (caches w) CACHE_NAME (url req) = None"
  then show "fst (on_fetch so net req w) = Responded NetworkError"
    using cf_general[of net req w] assms(2) by (simp add: on_fetch_fst)
next
  fix c
  assume "fetch_listener so req = [NetworkWithCacheFallback]"
    and "caches_match (caches w) (url req) = Resp c"
  then show "fst (on_fetch so net req w) = Responded (Response c)"
    using assms(2) by (simp add: on_fetch_fst networkWithCacheFallback_def fetch_def)
next
  assume "fetch_listener so req = [NetworkWithCacheFallback]"
    and "caches_match (caches w) (url req) = Undefined"
  then show "fst (on_fetch so net req w) = Responded NetworkError"
    using assms(2) by (simp add: on_fetch_fst networkWithCacheFallback_def fetch_def)
qed

theorem transport_failure_recovery_witness:
  "fst (on_fetch ex_origin net_down (get_request ''navigate'' ''/about'') world0) =
     Responded (Response offline_response) \<and>
   fst (on_fetch ex_origin net_down (get_request ''no-cors'' ''/app.js'')
          (world_with ''/app.js'' old_response)) = Responded (Response old_response) \<and>
   on_fetch ex_origin net_down (get_request ''no-cors'' ''/logo.png'')
     (world_with ''/logo.png'' old_response) =
     (Responded (Response old_response), world_with ''/logo.png'' old_response) \<and>
   fst (on_fetch ex_origin net_down (get_request ''no-cors'' ''/logo.png'') world0) =
     Responded NetworkError \<and>
   fst (on_fetch ex_origin net_down (get_request ''cors'' ''/api/data'')
          (world_with ''/api/data'' old_response)) = Responded (Response old_response) \<and>
   fst (on_fetch ex_origin net_down (get_request ''cors'' ''/api/data'') world0) =
     Responded NetworkError"
proof -
  have g: "method (get_request m p) = ''GET''" for m p
    by (simp add: get_request_def)
  have d: "net_down n r = Rejected" for n r
    by (simp add: net_down_def)
  have r: "fetch_listener ex_origin (get_request ''navigate'' ''/about'') = [NetworkFirstNavigation]"
    "fetch_listener ex_origin (get_request ''no-cors'' ''/app.js'') = [StaleWhileRevalidate]"
    "fetch_listener ex_origin (get_request ''no-cors'' ''/logo.png'') = [CacheFirst]"
    "fetch_listener ex_origin (get_request ''cors'' ''/api/data'') = [NetworkWithCacheFallback]"
    by (simp_all add: fetch_listener_def get_request_def resolve_def matches_here_def)
  have s: "store_get (caches (world_with p old_response)) CACHE_NAME (url (get_request m p)) =
             Some old_response"
    "store_get (caches world0) CACHE_NAME k = None"
    "caches_match (caches (world_with p old_response)) (url (get_request m p)) = Resp old_response"
    "caches_match (caches world0) k = Undefined" for p m k
    by (simp_all add: world_with_def world0_def store_get_def get_request_def)
  have n: "fst (on_fetch ex_origin net_down (get_request ''navigate'' ''/about'') world0) =
             Responded (Response offline_response)"
    by (simp add: on_fetch_fst[OF r(1)] nfn_failure d s)
  show ?thesis
    using transport_failure_recovery[of "get_request ''navigate'' ''/about''" net_down
        world0 ex_origin] n
      transport_failure_recovery[of "get_request ''no-cors'' ''/app.js''" net_down
        "world_with ''/app.js'' old_response" ex_origin]
      transport_failure_recovery[of "get_request ''no-cors'' ''/logo.png''" net_down
        "world_with ''/logo.png'' old_response" ex_origin]
      transport_failure_recovery[of "get_request ''no-cors'' ''/logo.png''" net_down
        world0 ex_origin]
      transport_failure_recovery[of "get_request ''cors'' ''/api/data''" net_down
        "world_with ''/api/data'' old_response" ex_origin]
      transport_failure_recovery[of "get_request ''cors'' ''/api/data''" net_down
        world0 ex_origin]
      g d r s
    by simp
qed

section \<open>Claims about the status of a fetched response\<close>

text \<open>
  C10, as stated, fails in two ways. With a cached entry, Stale-While-Revalidate gives
  the caller the entry cached before, not the status-500 page the fetch resolved with.
  And a response the store refuses (here a status-206 response to a script request with
  no cached entry) is returned to the caller and not written into the store.
\<close>

theorem fetched_response_not_returned_or_not_stored:
  "net_error_page (calls (world_with ''/app.js'' old_response)) (get_request ''no-cors'' ''/app.js'')
      = Fulfilled error_response \<and>
   fst (staleWhileRevalidate net_error_page (get_request ''no-cors'' ''/app.js'')
          (world_with ''/app.js'' old_response)) = Fulfilled (Resp old_response) \<and>
   old_response \<noteq> error_response \<and>
   net_partial (calls world0) (get_request ''no-cors'' ''/app.js'') = Fulfilled partial_response \<and>
   fst (staleWhileRevalidate net_partial (get_request ''no-cors'' ''/app.js'') world0) =
     Fulfilled (Resp partial_response) \<and>
   store_get (caches (snd (staleWhileRevalidate net_partial (get_request ''no-cors'' ''/app.js'')
      world0))) CACHE_NAME (url (get_request ''no-cors'' ''/app.js'')) = None"
proof -
  have s: "store_get (caches (world_with ''/app.js'' old_response)) CACHE_NAME
             (url (get_request ''no-cors'' ''/app.js'')) = Some old_response"
    "store_get (caches world0) CACHE_NAME k = None" for k
    by (simp_all add: world_with_def world0_def store_get_def get_request_def)
  have n: "net_error_page n r = Fulfilled error_response"
    "net_partial n r = Fulfilled partial_response" for n r
    by (simp_all add: net_error_page_def net_partial_def)
  have p: "\<not> put_accepts partial_response"
    by (simp add: put_accepts_def partial_response_def)
  have d: "old_response \<noteq> error_response"
    by (simp add: old_response_def error_response_def)
  show ?thesis
    using s n p d
      swr_general[of net_error_page "get_request ''no-cors'' ''/app.js''"
        "world_with ''/app.js'' old_response"]
      swr_general[of net_partial "get_request ''no-cors'' ''/app.js''" world0]
      swr_store[of net_partial world0 "get_request ''no-cors'' ''/app.js''" partial_response]
    by simp
qed

text \<open>
  C10, amended. No strategy looks at the status of a fetched response; only the store
  does, and it refuses nothing but the status 206 and a \<open>Vary: *\<close> header, so a 4xx or
  5xx page without \<open>Vary: *\<close> is accepted. Whenever the fetch of a request is fulfilled:
  Network-First-Navigation returns the response, and stores it under the key of
  \<open>ENTRY_HTML\<close> when the store accepts it; Stale-While-Revalidate stores it under the
  request when the store accepts it, returns it when the current store had no entry, and
  returns the entry the store had otherwise; Cache-First, which fetches only when the
  current store has no entry, returns it, and when the store accepts it stores it and
  from then on answers the same request with it without fetching, whatever the transport
  would say.
\<close>

theorem any_status_is_cached:
  assumes "net (calls w) req = Fulfilled r"
  shows
    "(400 \<le> status r \<and> \<not> vary_star r \<longrightarrow> put_accepts r) \<and>
     fst (networkFirstNavigation so net req w) = Fulfilled (Resp r) \<and>
     (put_accepts r \<longrightarrow>
        store_get (caches (snd (networkFirstNavigation so net req w))) CACHE_NAME
          (resolve so ENTRY_HTML) = Some r) \<and>
     (put_accepts r \<longrightarrow>
        store_get (caches (snd (staleWhileRevalidate net req w))) CACHE_NAME (url req) = Some r) \<and>
     (store_get (caches w) CACHE_NAME (url req) = None \<longrightarrow>
        fst (staleWhileRevalidate net req w) = Fulfilled (Resp r)) \<and>
     (\<forall>c. store_get (caches w) CACHE_NAME (url req) = Some c \<longrightarrow>
        fst (staleWhileRevalidate net req w) = Fulfilled (Resp c)) \<and>
     (store_get (caches w) CACHE_NAME (url req) = None \<longrightarrow>
        fst (cacheFirst net req w) = Fulfilled (Resp r) \<and>
        (put_accepts r \<longrightarrow>
           store_get (caches (snd (cacheFirst net req w))) CACHE_NAME (url req) = Some r \<and>
           (\<forall>net'. cacheFirst net' req (snd (cacheFirst net req w)) =
              (Fulfilled (Resp r), snd (cacheFirst net req w)))))"
proof -
  have a: "store_get (caches w) CACHE_NAME (url req) = None \<Longrightarrow> put_accepts r \<Longrightarrow>
        \<forall>net'. cacheFirst net' req (snd (cacheFirst net req w)) =
           (Fulfilled (Resp r), snd (cacheFirst net req w))"
    using cf_store[of net w req r] cf_hit assms by simp
  have b: "400 \<le> status r \<and> \<not> vary_star r \<longrightarrow> put_accepts r"
    by (simp add: put_accepts_def)
  show ?thesis
    using nfn_success[of net w req r so] swr_store[of net w req r] swr_general[of net req w]
      cf_general[of net req w] cf_store[of net w req r] a b assms
    by (simp add: store_get_put keys_open)
qed

theorem any_status_is_cached_witness:
  "status error_response = 500 \<and> \<not> vary_star error_response \<and> put_accepts error_response \<and>
   net_error_page (calls world0) (get_request ''no-cors'' ''/logo.png'') = Fulfilled error_response \<and>
   fst (networkFirstNavigation ex_origin net_error_page (get_request ''no-cors'' ''/logo.png'')
          world0) = Fulfilled (Resp error_response) \<and>
   store_get (caches (snd (networkFirstNavigation ex_origin net_error_page
       (get_request ''no-cors'' ''/logo.png'') world0))) CACHE_NAME
     (resolve ex_origin ENTRY_HTML) = Some error_response \<and>
   store_get (caches (snd (staleWhileRevalidate net_error_page
       (get_request ''no-cors'' ''/logo.png'') world0))) CACHE_NAME
     (url (get_request ''no-cors'' ''/logo.png'')) = Some error_response \<and>
   fst (staleWhileRevalidate net_error_page (get_request ''no-cors'' ''/logo.png'') world0) =
     Fulfilled (Resp error_response) \<and>
   fst (staleWhileRevalidate net_error_page (get_request ''no-cors'' ''/logo.png'')
          (world_with ''/logo.png'' old_response)) = Fulfilled (Resp old_response) \<and>
   fst (cacheFirst net_error_page (get_request ''no-cors'' ''/logo.png'') world0) =
     Fulfilled (Resp error_response) \<and>
   fst (cacheFirst net_up (get_request ''no-cors'' ''/logo.png'')
          (snd (cacheFirst net_error_page (get_request ''no-cors'' ''/logo.png'') world0))) =
     Fulfilled (Resp error_response)"
proof -
  have e: "net_error_page n r = Fulfilled error_response" for n r
    by (simp add: net_error_page_def)
  have s: "store_get (caches (world_with p old_response)) CACHE_NAME (url (get_request m p)) =
             Some old_response"
    "store_get (caches world0) CACHE_NAME k = None" for p m k
    by (simp_all add: world_with_def world0_def store_get_def get_request_def)
  have v: "\<not> vary_star error_response" "status error_response = 500"
    by (simp_all add: vary_star_def error_response_def)
  show ?thesis
    using any_status_is_cached[of net_error_page world0 "get_request ''no-cors'' ''/logo.png''"
        error_response ex_origin]
      any_status_is_cached[of net_error_page "world_with ''/logo.png'' old_response"
        "get_request ''no-cors'' ''/logo.png''" error_response ex_origin]
      e s v
    by simp
qed

section \<open>The lifecycle: activation and installation\<close>

lemma fold_delete:
  "fold (\<lambda>k cs. if k \<noteq> N then caches_delete k cs else cs) ks cs =
     filter (\<lambda>p. fst p = N \<or> fst p \<notin> set ks) cs"
proof (induction ks arbitrary: cs)
  case Nil
  then show ?case by simp
next
  case (Cons k ks)
  show ?case
    by (auto simp: Cons.IH caches_delete_def intro!: filter_cong)
qed

lemma caches_activate:
  "caches (activate w) = filter (\<lambda>p. fst p = CACHE_NAME) (caches w)"
  by (auto simp: activate_def Let_def fold_delete caches_keys_def intro!: filter_cong)

lemma fetch_all_facts:
  "calls (snd (fetch_all net rs w)) = calls w + length rs \<and>
   caches (snd (fetch_all net rs w)) = caches w \<and>
   skip_waiting (snd (fetch_all net rs w)) = skip_waiting w \<and>
   length (fst (fetch_all net rs w)) = length rs \<and>
   (\<forall>i < length rs. fst (fetch_all net rs w) ! i = net (calls w + i) (rs ! i))"
proof (induction rs arbitrary: w)
  case Nil
  then show ?case by simp
next
  case (Cons r rs)
  show ?case
    using Cons.IH[of "w\<lparr>calls := Suc (calls w)\<rparr>"]
    by (auto simp: fetch_def nth_Cons split: prod.splits nat.splits)
qed

lemma keys_put_all: "fst ` set (put_all n kvs cs) = fst ` set cs"
  by (induction n kvs cs rule: put_all.induct) (simp_all add: keys_write)

lemma put_all_other:
  "k \<notin> fst ` set kvs \<Longrightarrow> store_get (put_all n kvs cs) m k = store_get cs m k"
  by (induction n kvs cs rule: put_all.induct) (auto simp: store_get_write)

lemma put_all_get:
  "n \<in> fst ` set cs \<Longrightarrow> distinct (map fst kvs) \<Longrightarrow> (k, Fulfilled r) \<in> set kvs \<Longrightarrow>
   store_get (put_all n kvs cs) n k = Some r"
proof (induction n kvs cs rule: put_all.induct)
  case (1 name cs)
  then show ?case by simp
next
  case (2 name k' r' kvs cs)
  show ?case
  proof (cases "(k, Fulfilled r) = (k', Fulfilled r')")
    case True
    then show ?thesis using 2 by (simp add: put_all_other store_get_write)
  next
    case False
    then show ?thesis using 2 by (auto simp: keys_write)
  qed
next
  case (3 name k' kvs cs)
  then show ?case by simp
qed

lemma distinct_manifest: "distinct (map (resolve so) PRECACHE_ASSETS)"
  by (simp add: PRECACHE_ASSETS_def ENTRY_HTML_def resolve_def)

lemma admits_iff: "addAll_admits x \<longleftrightarrow> (\<exists>r. x = Fulfilled r \<and> addAll_accepts r)"
  by (cases x) simp_all

lemma addAll_facts:
  assumes "distinct (map (resolve so) paths)" and "name \<in> fst ` set (caches w)"
  shows
    "calls (snd (cache_addAll so net name paths w)) = calls w + length paths \<and>
     (fst (cache_addAll so net name paths w) = Fulfilled () \<longleftrightarrow>
        (\<forall>i < length paths. \<exists>r. net (calls w + i) (request_of so (paths ! i)) = Fulfilled r \<and>
           addAll_accepts r)) \<and>
     (fst (cache_addAll so net name paths w) = Fulfilled () \<longrightarrow>
        (\<forall>i < length paths. \<forall>r. net (calls w + i) (request_of so (paths ! i)) = Fulfilled r \<longrightarrow>
           store_get (caches (snd (cache_addAll so net name paths w))) name
             (resolve so (paths ! i)) = Some r)) \<and>
     (fst (cache_addAll so net name paths w) \<noteq> Fulfilled () \<longrightarrow>
        caches (snd (cache_addAll so net name paths w)) = caches w)"
proof -
  define rs where "rs = map (request_of so) paths"
  define xs where "xs = fst (fetch_all net rs w)"
  define w1 where "w1 = snd (fetch_all net rs w)"
  define ks where "ks = map (resolve so) paths"
  have fa: "fetch_all net rs w = (xs, w1)" by (simp add: xs_def w1_def)
  have len: "length xs = length paths" "length ks = length paths"
    using fetch_all_facts[of net rs w] by (simp_all add: xs_def rs_def ks_def)
  have nth: "\<And>i. i < length paths \<Longrightarrow> xs ! i = net (calls w + i) (request_of so (paths ! i))"
    using fetch_all_facts[of net rs w] by (simp add: xs_def rs_def)
  have w1: "calls w1 = calls w + length paths" "caches w1 = caches w"
    using fetch_all_facts[of net rs w] by (simp_all add: w1_def rs_def)
  have adm: "list_all addAll_admits xs \<longleftrightarrow>
      (\<forall>i < length paths. \<exists>r. net (calls w + i) (request_of so (paths ! i)) = Fulfilled r \<and>
         addAll_accepts r)"
    using nth len by (simp add: list_all_length admits_iff)
  have res: "cache_addAll so net name paths w =
      (if list_all addAll_admits xs
       then (Fulfilled (), w1\<lparr>caches := put_all name (zip ks xs) (caches w)\<rparr>)
       else (Rejected, w1))"
    using fa w1 by (simp add: cache_addAll_def rs_def[symmetric] ks_def[symmetric])
  have dist: "distinct (map fst (zip ks xs))"
    using assms(1) len by (simp add: ks_def[symmetric])
  have stored: "store_get (put_all name (zip ks xs) (caches w)) name (resolve so (paths ! i)) = Some r"
    if "i < length paths" and "net (calls w + i) (request_of so (paths ! i)) = Fulfilled r" for i r
  proof -
    have "(ks ! i, xs ! i) \<in> set (zip ks xs)"
      using that(1) len by (auto simp: set_zip)
    then have "(resolve so (paths ! i), Fulfilled r) \<in> set (zip ks xs)"
      using that nth by (simp add: ks_def)
    then show ?thesis
      using put_all_get[OF assms(2) dist] by simp
  qed
  show ?thesis
    unfolding res using adm w1 stored by auto
qed

text \<open>
  C8. After activation no store with a name other than \<open>CACHE_NAME\<close> is left, every
  entry of the current store is retrievable as before (activation changes no entry of it),
  and the current store itself is still there when it was there before.
\<close>

theorem activation_keeps_only_current:
  "(\<forall>n. n \<noteq> CACHE_NAME \<longrightarrow> n \<notin> set (caches_keys (caches (activate w)))) \<and>
   (\<forall>k. store_get (caches (activate w)) CACHE_NAME k = store_get (caches w) CACHE_NAME k) \<and>
   (CACHE_NAME \<in> set (caches_keys (caches w)) \<longrightarrow>
      CACHE_NAME \<in> set (caches_keys (caches (activate w)))) \<and>
   claimed (activate w)"
proof -
  have "claimed (activate w)" by (simp add: activate_def Let_def)
  then show ?thesis
    by (auto simp: caches_activate store_get_filter caches_keys_def)
qed

theorem activation_keeps_only_current_witness:
  "caches_keys (caches world_stale) = [''old-cache-v1'', CACHE_NAME, ''awc-cache-v1''] \<and>
   caches_keys (caches (activate world_stale)) = [CACHE_NAME] \<and>
   ''old-cache-v1'' \<notin> set (caches_keys (caches (activate world_stale))) \<and>
   store_get (caches (activate world_stale)) CACHE_NAME (resolve ex_origin ''/index.html'') =
     Some ok_response \<and>
   claimed (activate world_stale)"
proof -
  have a: "''old-cache-v1'' \<noteq> CACHE_NAME" "''awc-cache-v1'' \<noteq> CACHE_NAME"
    by (simp_all add: CACHE_NAME_def)
  have b: "CACHE_NAME \<in> set (caches_keys (caches world_stale))"
    by (simp add: world_stale_def caches_keys_def)
  have c: "store_get (caches world_stale) CACHE_NAME (resolve ex_origin ''/index.html'') =
             Some ok_response"
    using a by (simp add: world_stale_def store_get_def ENTRY_HTML_def)
  have d: "caches_keys (caches (activate world_stale)) = [CACHE_NAME]"
    using a by (simp add: activate_def world_stale_def caches_keys_def caches_delete_def)
  show ?thesis
    using activation_keeps_only_current[of world_stale] a b c d
    by (simp add: world_stale_def caches_keys_def)
qed

text \<open>
  C9. Installation makes one fetch for every path of the manifest, whatever their
  outcomes, before the promise given to \<open>waitUntil\<close> settles. When any single fetch
  fails, installation is rejected. It is fulfilled exactly when every fetch is answered
  with a response \<open>addAll\<close> takes, and then the current store holds, under each path of
  the manifest, the response fetched for it. When it is rejected no entry of any store
  has changed.
\<close>

theorem install_precaches_or_fails:
  "calls (snd (install so net w)) = calls w + length PRECACHE_ASSETS \<and>
   (fst (install so net w) = Fulfilled () \<longleftrightarrow>
      (\<forall>i < length PRECACHE_ASSETS. \<exists>r.
         net (calls w + i) (request_of so (PRECACHE_ASSETS ! i)) = Fulfilled r \<and>
         addAll_accepts r)) \<and>
   (fst (install so net w) = Fulfilled () \<longrightarrow>
      (\<forall>i < length PRECACHE_ASSETS. \<forall>r.
         net (calls w + i) (request_of so (PRECACHE_ASSETS ! i)) = Fulfilled r \<longrightarrow>
         store_get (caches (snd (install so net w))) CACHE_NAME
           (resolve so (PRECACHE_ASSETS ! i)) = Some r)) \<and>
   ((\<exists>i < length PRECACHE_ASSETS.
       net (calls w + i) (request_of so (PRECACHE_ASSETS ! i)) = Rejected) \<longrightarrow>
      fst (install so net w) = Rejected) \<and>
   (fst (install so net w) = Rejected \<longrightarrow>
      (\<forall>n k. store_get (caches (snd (install so net w))) n k = store_get (caches w) n k))"
proof -
  define w1 where
    "w1 = w\<lparr>skip_waiting := True, caches := caches_open CACHE_NAME (caches w)\<rparr>"
  have i: "install so net w = cache_addAll so net CACHE_NAME PRECACHE_ASSETS w1"
    by (simp add: install_def Let_def w1_def)
  have k: "CACHE_NAME \<in> fst ` set (caches w1)" by (simp add: w1_def keys_open)
  have c: "calls w1 = calls w" by (simp add: w1_def)
  have o: "store_get (caches w1) n k = store_get (caches w) n k" for n k
    by (simp add: w1_def store_get_open)
  have e: "x \<noteq> Fulfilled () \<longleftrightarrow> x = Rejected" for x :: "unit settled"
    by (cases x) simp_all
  note f = addAll_facts[OF distinct_manifest k, where net = net and so = so]
  have 1: "calls (snd (install so net w)) = calls w + length PRECACHE_ASSETS"
    using f by (simp add: i c)
  have 2: "fst (install so net w) = Fulfilled () \<longleftrightarrow>
      (\<forall>i < length PRECACHE_ASSETS. \<exists>r.
         net (calls w + i) (request_of so (PRECACHE_ASSETS ! i)) = Fulfilled r \<and>
         addAll_accepts r)"
    using f by (simp add: i c)
  have 3: "fst (install so net w) = Fulfilled () \<longrightarrow>
      (\<forall>i < length PRECACHE_ASSETS. \<forall>r.
         net (calls w + i) (request_of so (PRECACHE_ASSETS ! i)) = Fulfilled r \<longrightarrow>
         store_get (caches (snd (install so net w))) CACHE_NAME
           (resolve so (PRECACHE_ASSETS ! i)) = Some r)"
    using f by (simp add: i c)
  have 4: "(\<exists>i < length PRECACHE_ASSETS.
       net (calls w + i) (request_of so (PRECACHE_ASSETS ! i)) = Rejected) \<longrightarrow>
      fst (install so net w) = Rejected"
    using 2 e[of "fst (install so net w)"] by force
  have 5: "fst (install so net w) = Rejected \<longrightarrow>
      (\<forall>n k. store_get (caches (snd (install so net w))) n k = store_get (caches w) n k)"
    using f o by (simp add: i)
  show ?thesis
    using 1 2 3 4 5 by blast
qed

theorem install_precaches_or_fails_witness:
  "length PRECACHE_ASSETS = 6 \<and>
   addAll_accepts ok_response \<and>
   fst (install ex_origin net_up world0) = Fulfilled () \<and>
   calls (snd (install ex_origin net_up world0)) = 6 \<and>
   store_get (caches (snd (install ex_origin net_up world0))) CACHE_NAME
     (resolve ex_origin ''/manifest.json'') = Some ok_response \<and>
   store_get (caches (snd (install ex_origin net_up world0))) CACHE_NAME
     (resolve ex_origin ''/icons/apple-touch-icon-180.png'') = Some ok_response \<and>
   net_flaky (calls world0 + 2) (request_of ex_origin (PRECACHE_ASSETS ! 2)) = Rejected \<and>
   fst (install ex_origin net_flaky world0) = Rejected \<and>
   calls (snd (install ex_origin net_flaky world0)) = 6 \<and>
   store_get (caches (snd (install ex_origin net_flaky world0))) CACHE_NAME
     (resolve ex_origin ''/'') = None \<and>
   \<not> addAll_accepts error_response \<and>
   fst (install ex_origin net_error_page world0) = Rejected \<and>
   store_get (caches (snd (install ex_origin net_error_page world0))) CACHE_NAME
     (resolve ex_origin ''/'') = None"
proof -
  have l: "length PRECACHE_ASSETS = 6"
    "PRECACHE_ASSETS ! 2 = ''/manifest.json''"
    "PRECACHE_ASSETS ! 5 = ''/icons/apple-touch-icon-180.png''"
    by (simp_all add: PRECACHE_ASSETS_def)
  have c: "calls world0 = 0" by (simp add: world0_def)
  have s0: "store_get (caches world0) n k = None" for n k
    by (simp add: world0_def store_get_def)
  have u: "net_up n r = Fulfilled ok_response" for n r by (simp add: net_up_def)
  have ep: "net_error_page n r = Fulfilled error_response" for n r
    by (simp add: net_error_page_def)
  have a: "addAll_accepts ok_response" "\<not> addAll_accepts error_response"
    by (simp_all add: addAll_accepts_def vary_star_def ok_response_def error_response_def)
  have f: "net_flaky (calls world0 + 2) (request_of ex_origin (PRECACHE_ASSETS ! 2)) = Rejected"
    by (simp add: net_flaky_def c)
  note up = install_precaches_or_fails[of ex_origin net_up world0]
  note fl = install_precaches_or_fails[of ex_origin net_flaky world0]
  note er = install_precaches_or_fails[of ex_origin net_error_page world0]
  have 1: "fst (install ex_origin net_up world0) = Fulfilled ()"
    using up a by (simp add: u)
  have 2: "store_get (caches (snd (install ex_origin net_up world0))) CACHE_NAME
     (resolve ex_origin (PRECACHE_ASSETS ! i)) = Some ok_response" if "i < 6" for i
    using up 1 that l(1) u by simp
  have "(2::nat) < length PRECACHE_ASSETS" by (simp add: l(1))
  then have "\<exists>i < length PRECACHE_ASSETS.
      net_flaky (calls world0 + i) (request_of ex_origin (PRECACHE_ASSETS ! i)) = Rejected"
    using f by blast
  then have 3: "fst (install ex_origin net_flaky world0) = Rejected"
    using fl by blast
  have "(0::nat) < length PRECACHE_ASSETS" by (simp add: l(1))
  then have "\<not> (\<forall>i < length PRECACHE_ASSETS. \<exists>r.
         net_error_page (calls world0 + i) (request_of ex_origin (PRECACHE_ASSETS ! i)) =
           Fulfilled r \<and> addAll_accepts r)"
    using a(2) ep by auto
  then have "fst (install ex_origin net_error_page world0) \<noteq> Fulfilled ()"
    using er by blast
  then have 4: "fst (install ex_origin net_error_page world0) = Rejected"
    by (cases "fst (install ex_origin net_error_page world0)") simp_all
  have 5: "store_get (caches (snd (install ex_origin net_flaky world0))) CACHE_NAME
     (resolve ex_origin ''/'') = None"
    "store_get (caches (snd (install ex_origin net_error_page world0))) CACHE_NAME
     (resolve ex_origin ''/'') = None"
    using fl er 3 4 s0 by simp_all
  show ?thesis
    using 1 2[of 2] 2[of 5] 3 4 5 a up fl f l c by simp
qed

end
